theory Spec2Isabelle
  imports Main "HOL-Library.AList"
begin

section \<open>Data model\<close>

text \<open>
  The interaction client of \<^verbatim>\<open>static/js/user_interaction.js\<close> (the class
  \<^verbatim>\<open>UserInteractionHandler\<close>) and the standalone page
  \<^verbatim>\<open>static/interaction_modal.html\<close>, embedded as functions on explicit state.
  The state of the handler is the four fields of the class together with the parts of the
  browser the methods read and write: the document, the global \<^verbatim>\<open>bootstrap\<close>, the
  interval timers, the console and the requests handed to \<^verbatim>\<open>fetch\<close>.
\<close>

text \<open>Values that \<^verbatim>\<open>JSON.stringify\<close> receives as the response.\<close>

datatype json = JNull | JBool bool | JString string

text \<open>
  An entry of the object returned by \<^verbatim>\<open>GET /api/interaction/pending\<close>. The field
  \<^verbatim>\<open>type\<close> is called \<open>rtype\<close> here; \<^verbatim>\<open>options\<close> may be missing.
\<close>

record request =
  request_id :: string
  rtype :: string
  prompt :: string
  description :: string
  options :: "string list option"

text \<open>A thrown value; each carries the text of its \<^verbatim>\<open>message\<close> property.\<close>

datatype error = TypeError string | FetchError string | SyntaxError string

fun message :: "error \<Rightarrow> string" where
  "message (TypeError m) = m"
| "message (FetchError m) = m"
| "message (SyntaxError m) = m"

text \<open>How a call ends: it returns (an async function fulfils), or it throws (rejects).\<close>

datatype outcome = Done | Raised error

datatype log_entry = Log string | Error string "error option"

text \<open>A call of \<^verbatim>\<open>fetch\<close>: method, path and the members of the JSON body.\<close>

datatype http_request = Fetch string string "(string \<times> json) list"

text \<open>
  What a \<^verbatim>\<open>fetch\<close> of a POST settles to. \<^verbatim>\<open>fetch\<close> rejects on a network failure
  only; a reply with any HTTP status, 404 included, resolves.
\<close>

datatype post_reply = PostRejected string | PostResolved nat

text \<open>
  What the fetch of the pending set settles to: the fetch rejects, or
  \<^verbatim>\<open>response.json()\<close> rejects, or the body is an object, given as the list that
  \<^verbatim>\<open>Object.entries\<close> enumerates.
\<close>

datatype pending_reply =
  PendingRejected string
| PendingUnparsable string
| PendingData "(string \<times> request) list"

record status_element =
  textContent :: string
  className :: string
  display :: string

record radio =
  rvalue :: string
  rchecked :: bool

text \<open>
  The document. \<open>modal_count\<close> counts the elements with id
  \<^verbatim>\<open>user-interaction-modal\<close>; the next seven fields are the parts of the first of
  them: the prompt and description paragraphs, the form controls inside
  \<^verbatim>\<open>#user-interaction-content\<close> (an absent control is \<open>None\<close>), the label of the
  submit button and the request each button's \<^verbatim>\<open>onclick\<close> closure holds.
  \<open>interaction_status\<close> is the element with id \<^verbatim>\<open>interaction-status\<close>, which the
  markup of \<^verbatim>\<open>createModalElement\<close> does not contain: the hosting page supplies it or
  it is absent. \<open>head_children\<close> counts the nodes appended to the head.
\<close>

record document =
  modal_count :: nat
  prompt_text :: string
  description_text :: string
  interaction_input :: "string option"
  confirm_check :: "bool option"
  selection_radios :: "radio list"
  submit_text :: string
  submit_onclick :: "request option"
  cancel_onclick :: "request option"
  interaction_status :: "status_element option"
  head_children :: nat

text \<open>
  The handler and its environment. \<open>interactionModal\<close> is \<open>None\<close> for
  \<^verbatim>\<open>null\<close> and \<open>Some shown\<close> for the Bootstrap modal object with its visibility.
  The modal object is followed by its visibility alone: \<^verbatim>\<open>show()\<close> and \<^verbatim>\<open>hide()\<close>
  take effect at once, as they do on a modal that is at rest. Bootstrap ignores either call
  while the modal is still fading in or out; that interval is not part of the state.
  \<open>pendingInteractions\<close> keeps the object's own properties in insertion order.
\<close>

record client =
  interactionModal :: "bool option"
  pendingInteractions :: "(string \<times> request) list"
  checkInterval :: "nat option"
  initialized :: bool
  doc :: document
  bootstrap_defined :: bool
  active_intervals :: "nat list"
  next_handle :: nat
  console :: "log_entry list"
  network :: "http_request list"

section \<open>Browser primitives\<close>

definition console_log :: "string \<Rightarrow> client \<Rightarrow> client" where
  "console_log m c = c\<lparr>console := console c @ [Log m]\<rparr>"

definition console_error :: "string \<Rightarrow> error option \<Rightarrow> client \<Rightarrow> client" where
  "console_error m e c = c\<lparr>console := console c @ [Error m e]\<rparr>"

definition fetch :: "http_request \<Rightarrow> client \<Rightarrow> client" where
  "fetch q c = c\<lparr>network := network c @ [q]\<rparr>"

definition setInterval :: "client \<Rightarrow> nat \<times> client" where
  "setInterval c =
     (next_handle c,
      c\<lparr>active_intervals := active_intervals c @ [next_handle c],
        next_handle := Suc (next_handle c)\<rparr>)"

definition clearInterval :: "nat \<Rightarrow> client \<Rightarrow> client" where
  "clearInterval h c = c\<lparr>active_intervals := removeAll h (active_intervals c)\<rparr>"

text \<open>
  The TypeError raised by a property access on \<^verbatim>\<open>null\<close>. The wording of its
  message differs between engines; one is fixed here.
\<close>

definition null_access :: "string \<Rightarrow> error" where
  "null_access p = TypeError (''Cannot access property '' @ p @ '' of null'')"

text \<open>
  \<open>pendingInteractions\<close> is created as \<^verbatim>\<open>{}\<close>, so a lookup that finds no own
  property goes on to \<^verbatim>\<open>Object.prototype\<close>, whose properties are all truthy.
\<close>

definition object_prototype_keys :: "string list" where
  "object_prototype_keys =
     [''constructor'', ''__defineGetter__'', ''__defineSetter__'', ''hasOwnProperty'',
      ''__lookupGetter__'', ''__lookupSetter__'', ''isPrototypeOf'',
      ''propertyIsEnumerable'', ''toString'', ''valueOf'', ''__proto__'',
      ''toLocaleString'']"

text \<open>The test \<^verbatim>\<open>this.pendingInteractions[reqId]\<close> read as a condition.\<close>

definition truthy_entry :: "(string \<times> request) list \<Rightarrow> string \<Rightarrow> bool" where
  "truthy_entry m k = (map_of m k \<noteq> None \<or> k \<in> set object_prototype_keys)"

section \<open>UserInteractionHandler\<close>

definition constructor :: "document \<Rightarrow> bool \<Rightarrow> nat \<Rightarrow> client" where
  "constructor d b h =
     \<lparr>interactionModal = None, pendingInteractions = [], checkInterval = None,
      initialized = False, doc = d, bootstrap_defined = b, active_intervals = [],
      next_handle = h, console = [], network = []\<rparr>"

text \<open>
  \<^verbatim>\<open>createModalElement\<close> appends the modal markup to the body. Lookups by id find the
  first element of the document, so the appended subtree is the one read afterwards only
  when there was none before.
\<close>

definition createModalElement :: "document \<Rightarrow> document" where
  "createModalElement d =
     (if modal_count d = 0
      then d\<lparr>modal_count := 1, prompt_text := [], description_text := [],
             interaction_input := None, confirm_check := None, selection_radios := [],
             submit_text := ''Submit'', submit_onclick := None, cancel_onclick := None\<rparr>
      else d\<lparr>modal_count := Suc (modal_count d)\<rparr>)"

definition loadBootstrap :: "client \<Rightarrow> client" where
  "loadBootstrap c = c\<lparr>doc := (doc c)\<lparr>head_children := head_children (doc c) + 2\<rparr>\<rparr>"

definition init :: "client \<Rightarrow> client" where
  "init c =
     (if initialized c then c
      else
        let c1 = console_log ''Initializing user interaction handler...'' c;
            c2 = (if modal_count (doc c1) = 0
                  then console_log ''Created modal element''
                         (c1\<lparr>doc := createModalElement (doc c1)\<rparr>)
                  else c1)
        in if \<not> bootstrap_defined c2
           then loadBootstrap
                  (console_error ''Bootstrap is not loaded! Modal won't work.'' None c2)
           else
             let c3 = c2\<lparr>interactionModal := Some False\<rparr>;
                 (h, c4) = setInterval c3
             in console_log ''User interaction handler initialized''
                  (c4\<lparr>checkInterval := Some h, initialized := True\<rparr>))"

text \<open>The \<^verbatim>\<open>onload\<close> handler that \<^verbatim>\<open>loadBootstrap\<close> puts on the script node.\<close>

definition script_onload :: "client \<Rightarrow> client" where
  "script_onload c =
     init (console_log ''Bootstrap loaded dynamically'' (c\<lparr>bootstrap_defined := True\<rparr>))"

text \<open>
  The radio buttons of a selection are built by interpolating each option, unescaped,
  between the quotes of \<^verbatim>\<open>value="..."\<close> and into the label, and assigning the result
  to \<^verbatim>\<open>innerHTML\<close>. \<open>attribute_value\<close> is the value the parser reads back for the
  button: the input is preprocessed (CR LF and CR become LF), the attribute ends at the
  first double quote of the option, and a NUL becomes U+FFFD (written here in UTF-8).
  Two things the parser does are not followed here: character references (an
  \<^verbatim>\<open>&\<close> in the option), and the attributes and elements an option creates once it has
  closed the quotes or opened a tag inside the label. \<open>html_plain\<close> accepts the options
  that contain none of the characters involved; they are read back as they are.
\<close>

definition replacement_character :: string where
  "replacement_character = [CHR 0xEF, CHR 0xBF, CHR 0xBD]"

fun normalize_input :: "string \<Rightarrow> string" where
  "normalize_input [] = []"
| "normalize_input [c] =
     (if c = CHR 0x0D then [CHR 0x0A]
      else if c = CHR 0x00 then replacement_character
      else [c])"
| "normalize_input (c # d # cs) =
     (if c = CHR 0x0D \<and> d = CHR 0x0A then CHR 0x0A # normalize_input cs
      else if c = CHR 0x0D then CHR 0x0A # normalize_input (d # cs)
      else if c = CHR 0x00 then replacement_character @ normalize_input (d # cs)
      else c # normalize_input (d # cs))"

definition attribute_value :: "string \<Rightarrow> string" where
  "attribute_value s = normalize_input (takeWhile (\<lambda>c. c \<noteq> CHR 0x22) s)"


text \<open>The markup \<^verbatim>\<open>showInteraction\<close> writes into the content element, by request type.\<close>

definition render_content :: "request \<Rightarrow> document \<Rightarrow> document" where
  "render_content r d =
     (let d0 = d\<lparr>interaction_input := None, confirm_check := None, selection_radios := []\<rparr>
      in if rtype r = ''text_input'' then d0\<lparr>interaction_input := Some []\<rparr>
         else if rtype r = ''login'' then d0\<lparr>submit_text := ''Done''\<rparr>
         else if rtype r = ''confirmation'' then d0\<lparr>confirm_check := Some False\<rparr>
         else if rtype r = ''selection''
           then d0\<lparr>selection_radios :=
                     map (\<lambda>opt. \<lparr>rvalue = attribute_value opt, rchecked = False\<rparr>)
                       (case options r of None \<Rightarrow> [] | Some os \<Rightarrow> os)\<rparr>
         else d0)"

definition showInteraction :: "request \<Rightarrow> client \<Rightarrow> outcome \<times> client" where
  "showInteraction r c =
     (if modal_count (doc c) = 0 then (Raised (null_access ''textContent''), c)
      else
        let d1 = (doc c)\<lparr>prompt_text := prompt r, description_text := description r\<rparr>;
            d2 = render_content r d1;
            d3 = d2\<lparr>submit_onclick := Some r, cancel_onclick := Some r\<rparr>;
            c1 = c\<lparr>doc := d3\<rparr>
        in case interactionModal c1 of
             None \<Rightarrow> (Raised (null_access ''show''), c1)
           | Some _ \<Rightarrow> (Done, c1\<lparr>interactionModal := Some True\<rparr>))"

text \<open>The loop over \<^verbatim>\<open>Object.entries(data)\<close>, which leaves at the first new entry.\<close>

fun process_entries :: "(string \<times> request) list \<Rightarrow> client \<Rightarrow> outcome \<times> client" where
  "process_entries [] c = (Done, c)"
| "process_entries ((reqId, r) # rest) c =
     (if \<not> truthy_entry (pendingInteractions c) reqId
      then showInteraction r
             ((console_log ''New interaction request:'' c)
                \<lparr>pendingInteractions := AList.update reqId r (pendingInteractions c)\<rparr>)
      else process_entries rest c)"

text \<open>
  \<^verbatim>\<open>checkPendingInteractions\<close> up to its first \<^verbatim>\<open>await\<close>, and from the moment the
  fetch has settled. Every throw inside is caught and logged.
\<close>

definition checkPendingInteractions_begin :: "client \<Rightarrow> client" where
  "checkPendingInteractions_begin c =
     fetch (Fetch ''GET'' ''/api/interaction/pending'' [])
       (console_log ''Checking for pending interactions...'' c)"

definition checkPendingInteractions_resume :: "pending_reply \<Rightarrow> client \<Rightarrow> client" where
  "checkPendingInteractions_resume reply c =
     (case reply of
        PendingRejected m \<Rightarrow>
          console_error ''Error checking for interactions:'' (Some (FetchError m)) c
      | PendingUnparsable m \<Rightarrow>
          console_error ''Error checking for interactions:'' (Some (SyntaxError m)) c
      | PendingData data \<Rightarrow>
          (case process_entries data (console_log ''Pending interactions:'' c) of
             (Done, c') \<Rightarrow> c'
           | (Raised e, c') \<Rightarrow>
               console_error ''Error checking for interactions:'' (Some e) c'))"

definition checkPendingInteractions :: "pending_reply \<Rightarrow> client \<Rightarrow> client" where
  "checkPendingInteractions reply c =
     checkPendingInteractions_resume reply (checkPendingInteractions_begin c)"

text \<open>The \<^verbatim>\<open>switch\<close> at the head of \<^verbatim>\<open>submitResponse\<close>, outside its \<^verbatim>\<open>try\<close>.\<close>

definition response_value :: "request \<Rightarrow> document \<Rightarrow> error + json" where
  "response_value r d =
     (if rtype r = ''text_input''
        then (case interaction_input d of
                None \<Rightarrow> Inl (null_access ''value'')
              | Some v \<Rightarrow> Inr (JString v))
      else if rtype r = ''login'' then Inr (JString ''completed'')
      else if rtype r = ''confirmation''
        then (case confirm_check d of
                None \<Rightarrow> Inl (null_access ''checked'')
              | Some b \<Rightarrow> Inr (JBool b))
      else if rtype r = ''selection''
        then (case find rchecked (selection_radios d) of
                None \<Rightarrow> Inr JNull
              | Some x \<Rightarrow> Inr (JString (rvalue x)))
      else Inr (JString ''acknowledged''))"

definition set_status :: "string \<Rightarrow> string \<Rightarrow> status_element \<Rightarrow> status_element" where
  "set_status t cl s = s\<lparr>textContent := t, className := cl\<rparr>"

text \<open>The \<^verbatim>\<open>catch\<close> block of \<^verbatim>\<open>submitResponse\<close>, which looks the status element up again.\<close>

definition submit_catch :: "error \<Rightarrow> client \<Rightarrow> outcome \<times> client" where
  "submit_catch e c =
     (let c1 = console_error ''Error submitting response:'' (Some e) c
      in case interaction_status (doc c1) of
           None \<Rightarrow> (Raised (null_access ''textContent''), c1)
         | Some s \<Rightarrow>
             (Done,
              c1\<lparr>doc := (doc c1)\<lparr>interaction_status :=
                   Some (set_status (''Error notifying agent: '' @ message e)
                           ''alert alert-danger mt-3'' s)\<rparr>\<rparr>))"

definition response_body :: "request \<Rightarrow> json \<Rightarrow> (string \<times> json) list" where
  "response_body r v =
     [(''request_id'', JString (request_id r)), (''response'', v),
      (''cancelled'', JBool False)]"

text \<open>
  \<^verbatim>\<open>submitResponse\<close> up to \<^verbatim>\<open>await fetch\<close>: the result \<open>None\<close> says that the call
  is suspended on the fetch, \<open>Some\<close> that it has ended before issuing one.
\<close>

definition submitResponse_begin :: "request \<Rightarrow> client \<Rightarrow> outcome option \<times> client" where
  "submitResponse_begin r c =
     (case response_value r (doc c) of
        Inl e \<Rightarrow> (Some (Raised e), c)
      | Inr v \<Rightarrow>
          (case interaction_status (doc c) of
             None \<Rightarrow>
               (let (out, c') = submit_catch (null_access ''textContent'') c
                in (Some out, c'))
           | Some s \<Rightarrow>
               (None,
                fetch (Fetch ''POST'' ''/api/interaction/response'' (response_body r v))
                  (c\<lparr>doc := (doc c)\<lparr>interaction_status :=
                       Some ((set_status ''Notifying agent of your action...''
                                ''alert alert-info mt-3'' s)\<lparr>display := ''block''\<rparr>)\<rparr>\<rparr>))))"

text \<open>
  \<^verbatim>\<open>submitResponse\<close> from the moment its fetch has settled. The reply is not inspected:
  whatever resolves counts as delivered. The closing wait of 1500 ms changes nothing.
\<close>

definition submitResponse_resume :: "request \<Rightarrow> post_reply \<Rightarrow> client \<Rightarrow> outcome \<times> client" where
  "submitResponse_resume r reply c =
     (case reply of
        PostRejected m \<Rightarrow> submit_catch (FetchError m) c
      | PostResolved code \<Rightarrow>
          (let c1 = c\<lparr>pendingInteractions :=
                        AList.delete (request_id r) (pendingInteractions c)\<rparr>
           in case interactionModal c1 of
                None \<Rightarrow> submit_catch (null_access ''hide'') c1
              | Some _ \<Rightarrow>
                  (Done,
                   c1\<lparr>interactionModal := Some False,
                      doc := (doc c1)\<lparr>interaction_status :=
                        map_option (set_status ''Agent notified! Continuing task...''
                                      ''alert alert-success mt-3'')
                          (interaction_status (doc c1))\<rparr>\<rparr>)))"

definition submitResponse :: "request \<Rightarrow> post_reply \<Rightarrow> client \<Rightarrow> outcome \<times> client" where
  "submitResponse r reply c =
     (case submitResponse_begin r c of
        (Some out, c') \<Rightarrow> (out, c')
      | (None, c') \<Rightarrow> submitResponse_resume r reply c')"

definition cancelInteraction_begin :: "request \<Rightarrow> client \<Rightarrow> client" where
  "cancelInteraction_begin r c =
     fetch (Fetch ''POST'' ''/api/interaction/cancel''
              [(''request_id'', JString (request_id r))]) c"

definition cancelInteraction_resume :: "request \<Rightarrow> post_reply \<Rightarrow> client \<Rightarrow> client" where
  "cancelInteraction_resume r reply c =
     (case reply of
        PostRejected m \<Rightarrow>
          console_error ''Error cancelling interaction:'' (Some (FetchError m)) c
      | PostResolved code \<Rightarrow>
          (let c1 = c\<lparr>pendingInteractions :=
                        AList.delete (request_id r) (pendingInteractions c)\<rparr>
           in case interactionModal c1 of
                None \<Rightarrow>
                  console_error ''Error cancelling interaction:''
                    (Some (null_access ''hide'')) c1
              | Some _ \<Rightarrow> c1\<lparr>interactionModal := Some False\<rparr>))"

definition cancelInteraction :: "request \<Rightarrow> post_reply \<Rightarrow> client \<Rightarrow> client" where
  "cancelInteraction r reply c = cancelInteraction_resume r reply (cancelInteraction_begin r c)"

text \<open>\<^verbatim>\<open>cleanup\<close> tests the handle for truthiness, so the handle 0 is not cleared.\<close>

definition cleanup :: "client \<Rightarrow> client" where
  "cleanup c =
     (case checkInterval c of
        None \<Rightarrow> c
      | Some h \<Rightarrow> if h = 0 then c else clearInterval h c)"

text \<open>The request the modal shows: the one its buttons are bound to, while it is visible.\<close>

definition displayed :: "client \<Rightarrow> request option" where
  "displayed c = (if interactionModal c = Some True then submit_onclick (doc c) else None)"

section \<open>The user and the event loop\<close>

text \<open>
  What the user does to the form before pressing a button, as the browser applies it to
  the controls that exist: typing replaces the text of the field, the checkbox is set or
  cleared, and choosing a radio button checks it and unchecks the others of its group.
\<close>

datatype edit = TypeText string | SetCheck bool | Choose nat

fun user_edit :: "edit \<Rightarrow> document \<Rightarrow> document" where
  "user_edit (TypeText s) d =
     d\<lparr>interaction_input := map_option (\<lambda>_. s) (interaction_input d)\<rparr>"
| "user_edit (SetCheck b) d =
     d\<lparr>confirm_check := map_option (\<lambda>_. b) (confirm_check d)\<rparr>"
| "user_edit (Choose i) d =
     (if i < length (selection_radios d)
      then d\<lparr>selection_radios :=
               (map (\<lambda>x. x\<lparr>rchecked := False\<rparr>) (selection_radios d))
                 [i := (selection_radios d ! i)\<lparr>rchecked := True\<rparr>]\<rparr>
      else d)"

text \<open>
  The events the script registers handlers for. A tick is one firing of an active
  interval. The cancel button and the close button of the modal carry
  \<^verbatim>\<open>data-bs-dismiss="modal"\<close>, so Bootstrap hides the modal when either is clicked.
\<close>

datatype event =
  CallInit
| ScriptLoaded
| Tick pending_reply
| ClickSubmit post_reply
| ClickCancel post_reply
| ClickClose
| UserEdit edit
| BeforeUnload

definition dismiss :: "client \<Rightarrow> client" where
  "dismiss c = c\<lparr>interactionModal := map_option (\<lambda>_. False) (interactionModal c)\<rparr>"

fun fire :: "event \<Rightarrow> client \<Rightarrow> client" where
  "fire CallInit c = init c"
| "fire ScriptLoaded c = script_onload c"
| "fire (Tick reply) c =
     (if active_intervals c = [] then c else checkPendingInteractions reply c)"
| "fire (ClickSubmit reply) c =
     (case submit_onclick (doc c) of
        None \<Rightarrow> c
      | Some r \<Rightarrow> snd (submitResponse r reply c))"
| "fire (ClickCancel reply) c =
     (case cancel_onclick (doc c) of
        None \<Rightarrow> dismiss c
      | Some r \<Rightarrow> cancelInteraction_resume r reply (dismiss (cancelInteraction_begin r c)))"
| "fire ClickClose c = dismiss c"
| "fire (UserEdit e) c = c\<lparr>doc := user_edit e (doc c)\<rparr>"
| "fire BeforeUnload c = cleanup c"

definition run :: "event list \<Rightarrow> client \<Rightarrow> client" where
  "run es c = fold fire es c"

section \<open>The standalone page\<close>

text \<open>
  The script of \<^verbatim>\<open>interaction_modal.html\<close>: one global \<^verbatim>\<open>currentRequest\<close>, the
  texts of the static markup it writes, and its console and fetches. The functions that
  share a name with a method of the handler are prefixed with \<open>page\<close>.
\<close>

record page =
  currentRequest :: "request option"
  interaction_prompt :: string
  interaction_description :: string
  complete_button :: string
  status_message :: status_element
  page_console :: "log_entry list"
  page_network :: "http_request list"

definition showStatus :: "string \<Rightarrow> string \<Rightarrow> page \<Rightarrow> page" where
  "showStatus m t p =
     p\<lparr>status_message := \<lparr>textContent = m, className = t, display = ''block''\<rparr>\<rparr>"

definition page_fetch :: "http_request \<Rightarrow> page \<Rightarrow> page" where
  "page_fetch q p = p\<lparr>page_network := page_network p @ [q]\<rparr>"

definition page_error :: "string \<Rightarrow> error \<Rightarrow> page \<Rightarrow> page" where
  "page_error m e p = p\<lparr>page_console := page_console p @ [Error m (Some e)]\<rparr>"

definition displayRequest :: "request \<Rightarrow> page \<Rightarrow> page" where
  "displayRequest r p =
     (let p1 = p\<lparr>interaction_prompt := prompt r, interaction_description := description r\<rparr>
      in if rtype r = ''login'' then p1\<lparr>complete_button := ''Done''\<rparr> else p1)"

definition page_poll_failed :: "error \<Rightarrow> page \<Rightarrow> page" where
  "page_poll_failed e p =
     showStatus ''Error checking for interactions. Please refresh the page.'' ''error''
       (page_error ''Error checking for interactions:'' e p)"

definition page_checkPendingInteractions :: "pending_reply \<Rightarrow> page \<Rightarrow> page" where
  "page_checkPendingInteractions reply p =
     (let p1 = page_fetch (Fetch ''GET'' ''/api/interaction/pending'' []) p
      in case reply of
           PendingRejected m \<Rightarrow> page_poll_failed (FetchError m) p1
         | PendingUnparsable m \<Rightarrow> page_poll_failed (SyntaxError m) p1
         | PendingData data \<Rightarrow>
             (case map snd data of
                [] \<Rightarrow> p1
              | r # _ \<Rightarrow>
                  if currentRequest p1 = None
                  then displayRequest r (p1\<lparr>currentRequest := Some r\<rparr>)
                  else p1))"

definition page_submitResponse :: "post_reply \<Rightarrow> page \<Rightarrow> page" where
  "page_submitResponse reply p =
     (case currentRequest p of
        None \<Rightarrow> p
      | Some r \<Rightarrow>
          let p1 = showStatus ''Sending response...'' ''info'' p;
              p2 = page_fetch
                     (Fetch ''POST'' ''/api/interaction/response''
                        [(''request_id'', JString (request_id r)),
                         (''response'', JString ''completed''),
                         (''cancelled'', JBool False)]) p1
          in case reply of
               PostResolved code \<Rightarrow>
                 (showStatus ''Response sent! The agent will continue.'' ''success'' p2)
                   \<lparr>currentRequest := None\<rparr>
             | PostRejected m \<Rightarrow>
                 showStatus ''Error sending response. Please try again.'' ''error''
                   (page_error ''Error sending response:'' (FetchError m) p2))"

definition cancelRequest :: "post_reply \<Rightarrow> page \<Rightarrow> page" where
  "cancelRequest reply p =
     (case currentRequest p of
        None \<Rightarrow> p
      | Some r \<Rightarrow>
          let p2 = page_fetch
                     (Fetch ''POST'' ''/api/interaction/cancel''
                        [(''request_id'', JString (request_id r))]) p
          in case reply of
               PostResolved code \<Rightarrow>
                 (showStatus ''Request cancelled.'' ''info'' p2)\<lparr>currentRequest := None\<rparr>
             | PostRejected m \<Rightarrow>
                 showStatus ''Error cancelling request. Please try again.'' ''error''
                   (page_error ''Error cancelling request:'' (FetchError m) p2))"

text \<open>The timer callback that both success paths of the page schedule after 2000 ms.\<close>

definition clear_form :: "page \<Rightarrow> page" where
  "clear_form p =
     p\<lparr>interaction_prompt := ''Waiting for agent requests...'',
       interaction_description := []\<rparr>"

section \<open>The kind-dispatch table of the specification\<close>






text \<open>
  The radio group rendered for the options \<open>os\<close> in which the button at index \<open>ch\<close>, if
  any, is the one checked.
\<close>

definition marked :: "string list \<Rightarrow> nat option \<Rightarrow> radio list" where
  "marked os ch = map (\<lambda>i. \<lparr>rvalue = os ! i, rchecked = (ch = Some i)\<rparr>) [0..<length os]"

section \<open>Sample inputs\<close>

text \<open>
  A page that supplies the status element, two requests, a handler that has been
  initialised on that page, and the same handler after a poll that returned the first
  request; a selection whose first option is \<^verbatim>\<open>x"y\<close>; and a page without the status
  element, which is the page the handler builds for itself, with the handler after the
  same poll.
\<close>

definition sample_document :: document where
  "sample_document =
     \<lparr>modal_count = 0, prompt_text = [], description_text = [], interaction_input = None,
      confirm_check = None, selection_radios = [], submit_text = [], submit_onclick = None,
      cancel_onclick = None,
      interaction_status = Some \<lparr>textContent = [], className = [], display = ''none''\<rparr>,
      head_children = 0\<rparr>"

definition request_a :: request where
  "request_a = \<lparr>request_id = ''a'', rtype = ''text_input'', prompt = ''Name?'',
                 description = [], options = None\<rparr>"

definition request_b :: request where
  "request_b = \<lparr>request_id = ''b'', rtype = ''selection'', prompt = ''Pick one'',
                 description = [], options = Some [''A'', ''B'']\<rparr>"

definition started :: client where
  "started = init (constructor sample_document True 1)"

definition showing_a :: client where
  "showing_a = checkPendingInteractions (PendingData [(''a'', request_a)]) started"




definition sample_page :: page where
  "sample_page =
     \<lparr>currentRequest = Some request_a, interaction_prompt = ''Name?'',
      interaction_description = [], complete_button = ''Done'',
      status_message = \<lparr>textContent = [], className = [], display = ''none''\<rparr>,
      page_console = [], page_network = []\<rparr>"

section \<open>What the methods leave alone\<close>

text \<open>
  Only \<open>init\<close> starts an interval or inserts the modal, and nothing resets
  \<open>initialized\<close>; these lemmas follow the fields through every method and event.
\<close>

lemma init_when_initialized: "initialized c \<Longrightarrow> init c = c"
  by (simp add: init_def)

lemma modal_count_render_content [simp]: "modal_count (render_content r d) = modal_count d"
  by (simp add: render_content_def Let_def)

lemma showInteraction_keeps:
  "initialized (snd (showInteraction r c)) = initialized c \<and>
   next_handle (snd (showInteraction r c)) = next_handle c \<and>
   active_intervals (snd (showInteraction r c)) = active_intervals c \<and>
   checkInterval (snd (showInteraction r c)) = checkInterval c \<and>
   modal_count (doc (snd (showInteraction r c))) = modal_count (doc c)"
  by (simp add: showInteraction_def Let_def split: option.splits)

lemma process_entries_keeps:
  "initialized (snd (process_entries xs c)) = initialized c \<and>
   next_handle (snd (process_entries xs c)) = next_handle c \<and>
   active_intervals (snd (process_entries xs c)) = active_intervals c \<and>
   checkInterval (snd (process_entries xs c)) = checkInterval c \<and>
   modal_count (doc (snd (process_entries xs c))) = modal_count (doc c)"
proof (induction xs c rule: process_entries.induct)
  case (1 c)
  show ?case by simp
next
  case (2 reqId r rest c)
  show ?case
  proof (cases "truthy_entry (pendingInteractions c) reqId")
    case True
    with 2 show ?thesis by simp
  next
    case False
    then show ?thesis
      using showInteraction_keeps [of r "(console_log ''New interaction request:'' c)
                \<lparr>pendingInteractions := AList.update reqId r (pendingInteractions c)\<rparr>"]
      by (simp add: console_log_def)
  qed
qed

lemma checkPendingInteractions_keeps:
  "initialized (checkPendingInteractions reply c) = initialized c \<and>
   next_handle (checkPendingInteractions reply c) = next_handle c \<and>
   active_intervals (checkPendingInteractions reply c) = active_intervals c \<and>
   checkInterval (checkPendingInteractions reply c) = checkInterval c \<and>
   modal_count (doc (checkPendingInteractions reply c)) = modal_count (doc c)"
proof (cases reply)
  case (PendingData data)
  let ?c = "console_log ''Pending interactions:'' (checkPendingInteractions_begin c)"
  obtain out c' where p: "process_entries data ?c = (out, c')"
    by (cases "process_entries data ?c")
  from process_entries_keeps [of data ?c] p
  have "initialized c' = initialized c \<and> next_handle c' = next_handle c \<and>
        active_intervals c' = active_intervals c \<and> checkInterval c' = checkInterval c \<and>
        modal_count (doc c') = modal_count (doc c)"
    by (simp add: console_log_def checkPendingInteractions_begin_def fetch_def)
  with PendingData p show ?thesis
    by (cases out)
       (simp_all add: checkPendingInteractions_def checkPendingInteractions_resume_def
          console_error_def)
qed (simp_all add: checkPendingInteractions_def checkPendingInteractions_resume_def
       checkPendingInteractions_begin_def console_error_def console_log_def fetch_def)

lemma submitResponse_keeps:
  "initialized (snd (submitResponse r reply c)) = initialized c \<and>
   next_handle (snd (submitResponse r reply c)) = next_handle c \<and>
   active_intervals (snd (submitResponse r reply c)) = active_intervals c \<and>
   checkInterval (snd (submitResponse r reply c)) = checkInterval c \<and>
   modal_count (doc (snd (submitResponse r reply c))) = modal_count (doc c)"
  by (simp add: submitResponse_def submitResponse_begin_def submitResponse_resume_def
        submit_catch_def console_error_def fetch_def Let_def
      split: sum.splits option.splits post_reply.splits)

lemma cancel_keeps:
  "initialized (cancelInteraction_resume r reply (dismiss (cancelInteraction_begin r c))) = initialized c \<and>
   next_handle (cancelInteraction_resume r reply (dismiss (cancelInteraction_begin r c))) = next_handle c \<and>
   active_intervals (cancelInteraction_resume r reply (dismiss (cancelInteraction_begin r c))) = active_intervals c \<and>
   checkInterval (cancelInteraction_resume r reply (dismiss (cancelInteraction_begin r c))) = checkInterval c \<and>
   modal_count (doc (cancelInteraction_resume r reply (dismiss (cancelInteraction_begin r c)))) = modal_count (doc c)"
  by (simp add: cancelInteraction_resume_def cancelInteraction_begin_def dismiss_def
        console_error_def fetch_def Let_def
      split: option.splits post_reply.splits)

lemma user_edit_modal_count [simp]: "modal_count (user_edit e d) = modal_count d"
  by (cases e) simp_all

lemma fire_keeps:
  assumes "initialized c"
  shows "initialized (fire e c) \<and> next_handle (fire e c) = next_handle c \<and>
         checkInterval (fire e c) = checkInterval c \<and>
         modal_count (doc (fire e c)) = modal_count (doc c) \<and>
         set (active_intervals (fire e c)) \<subseteq> set (active_intervals c)"
proof (cases e)
  case CallInit
  with assms show ?thesis by (simp add: init_when_initialized)
next
  case ScriptLoaded
  with assms show ?thesis
    by (simp add: script_onload_def init_def console_log_def)
next
  case (Tick reply)
  with assms checkPendingInteractions_keeps [of reply c] show ?thesis by simp
next
  case (ClickSubmit reply)
  with assms submitResponse_keeps show ?thesis by (simp split: option.splits)
next
  case (ClickCancel reply)
  with assms cancel_keeps [of _ reply c] show ?thesis
    by (simp add: dismiss_def split: option.splits)
next
  case ClickClose
  with assms show ?thesis by (simp add: dismiss_def)
next
  case (UserEdit x)
  with assms show ?thesis by simp
next
  case BeforeUnload
  with assms show ?thesis
    by (auto simp: cleanup_def clearInterval_def split: option.splits)
qed

lemma run_keeps:
  "initialized c \<Longrightarrow>
     initialized (run es c) \<and> next_handle (run es c) = next_handle c \<and>
     checkInterval (run es c) = checkInterval c \<and>
     modal_count (doc (run es c)) = modal_count (doc c) \<and>
     set (active_intervals (run es c)) \<subseteq> set (active_intervals c)"
proof (induction es arbitrary: c)
  case Nil
  then show ?case by (simp add: run_def)
next
  case (Cons e es)
  from fire_keeps [OF Cons.prems, of e] Cons.IH [of "fire e c"]
  show ?case by (auto simp: run_def)
qed

section \<open>The form between showing and submitting\<close>



lemma length_marked [simp]: "length (marked os ch) = length os"
  by (simp add: marked_def)











section \<open>One submit, start to end\<close>

text \<open>
  The whole effect of \<open>submitResponse\<close> on a page that has the status element, for a
  fetch that resolves and for one that rejects, and on a page that lacks the element.
\<close>

lemma submitResponse_resolved:
  assumes "interaction_status (doc c) = Some s" "interactionModal c \<noteq> None"
    "response_value r (doc c) = Inr v"
  shows "submitResponse r (PostResolved code) c =
     (Done,
      c\<lparr>interactionModal := Some False,
        pendingInteractions := AList.delete (request_id r) (pendingInteractions c),
        doc := (doc c)\<lparr>interaction_status :=
                 Some \<lparr>textContent = ''Agent notified! Continuing task...'',
                       className = ''alert alert-success mt-3'', display = ''block''\<rparr>\<rparr>,
        network := network c @
          [Fetch ''POST'' ''/api/interaction/response'' (response_body r v)]\<rparr>)"
  using assms
  by (cases s)
     (auto simp: submitResponse_def submitResponse_begin_def submitResponse_resume_def
        fetch_def set_status_def)


lemma submitResponse_without_status:
  assumes "interaction_status (doc c) = None" "response_value r (doc c) = Inr v"
  shows "submitResponse r reply c =
     (Raised (null_access ''textContent''),
      c\<lparr>console := console c @
          [Error ''Error submitting response:'' (Some (null_access ''textContent''))]\<rparr>)"
  using assms
  by (simp add: submitResponse_def submitResponse_begin_def submit_catch_def console_error_def)

section \<open>What a poll displays\<close>









lemma page_poll_keeps_current:
  "currentRequest p = Some r \<Longrightarrow>
     currentRequest (page_checkPendingInteractions reply p) = Some r \<and>
     interaction_prompt (page_checkPendingInteractions reply p) = interaction_prompt p \<and>
     interaction_description (page_checkPendingInteractions reply p) =
       interaction_description p"
  by (simp add: page_checkPendingInteractions_def page_fetch_def page_poll_failed_def
        showStatus_def page_error_def Let_def
      split: pending_reply.splits list.splits)

section \<open>Initialisation\<close>

text \<open>
  Claim C10. Initialisation is idempotent. Once a call of \<open>init\<close> has succeeded, that
  is, has left \<open>initialized\<close> set, then after any sequence of later events (polls,
  clicks, edits, the load of the Bootstrap script, further calls of \<open>init\<close> from either
  call site) a call of \<open>init\<close> returns the state as it is; over the whole sequence no
  interval handle is handed out, the stored handle stays, no interval is added, and the
  number of modal elements stays.
\<close>

theorem init_idempotent:
  assumes "initialized (init c)"
  shows "init (run es (init c)) = run es (init c) \<and>
         next_handle (run es (init c)) = next_handle (init c) \<and>
         checkInterval (run es (init c)) = checkInterval (init c) \<and>
         set (active_intervals (run es (init c))) \<subseteq> set (active_intervals (init c)) \<and>
         modal_count (doc (run es (init c))) = modal_count (doc (init c))"
  using run_keeps [OF assms, of es] by (simp add: init_when_initialized)

theorem init_idempotent_witness:
  "initialized (init (constructor sample_document True 1)) \<and>
   init (run [Tick (PendingData [(''a'', request_a)]), CallInit, ScriptLoaded]
          (init (constructor sample_document True 1))) =
     run [Tick (PendingData [(''a'', request_a)]), CallInit, ScriptLoaded]
       (init (constructor sample_document True 1)) \<and>
   next_handle (run [Tick (PendingData [(''a'', request_a)]), CallInit, ScriptLoaded]
                  (init (constructor sample_document True 1))) = 2 \<and>
   modal_count (doc (run [Tick (PendingData [(''a'', request_a)]), CallInit, ScriptLoaded]
                  (init (constructor sample_document True 1)))) = 1"
proof -
  have h: "initialized (init (constructor sample_document True 1))" by code_simp
  have n: "next_handle (init (constructor sample_document True 1)) = 2" by code_simp
  have m: "modal_count (doc (init (constructor sample_document True 1))) = 1" by code_simp
  note t = init_idempotent [OF h,
    of "[Tick (PendingData [(''a'', request_a)]), CallInit, ScriptLoaded]", unfolded n m]
  from t h show ?thesis by blast
qed

section \<open>Polling\<close>

text \<open>
  Claim C8. A poll cycle whose fetch rejects, or whose body does not parse, ends normally:
  the handler's state after it is the state before it with the two console entries of the
  cycle (the second the logged failure) and the issued GET added. The document, the
  bookkeeping, the modal, the stored interval handle and the active intervals are the same,
  so nothing on display changes and the interval keeps firing.
\<close>

theorem poll_failure_survived:
  "checkPendingInteractions (PendingRejected m) c =
     c\<lparr>console := console c @ [Log ''Checking for pending interactions...'',
                                Error ''Error checking for interactions:'' (Some (FetchError m))],
       network := network c @ [Fetch ''GET'' ''/api/interaction/pending'' []]\<rparr> \<and>
   checkPendingInteractions (PendingUnparsable m) c =
     c\<lparr>console := console c @ [Log ''Checking for pending interactions...'',
                                Error ''Error checking for interactions:'' (Some (SyntaxError m))],
       network := network c @ [Fetch ''GET'' ''/api/interaction/pending'' []]\<rparr>"
  by (simp add: checkPendingInteractions_def checkPendingInteractions_resume_def
        checkPendingInteractions_begin_def console_error_def console_log_def fetch_def)

section \<open>Cancelling\<close>

text \<open>
  Claim C7. A cancellation issues one POST to \<^verbatim>\<open>/api/interaction/cancel\<close> whose body
  is the request's id. When the fetch resolves, the entry under that id is deleted from
  \<open>pendingInteractions\<close> and the modal is hidden, so nothing is displayed; nothing else
  of the state changes.
\<close>

theorem cancel_delivered:
  assumes "interactionModal c \<noteq> None"
  shows "network (cancelInteraction r reply c) =
           network c @ [Fetch ''POST'' ''/api/interaction/cancel''
                          [(''request_id'', JString (request_id r))]] \<and>
         cancelInteraction r (PostResolved code) c =
           c\<lparr>interactionModal := Some False,
             pendingInteractions := AList.delete (request_id r) (pendingInteractions c),
             network := network c @ [Fetch ''POST'' ''/api/interaction/cancel''
                                       [(''request_id'', JString (request_id r))]]\<rparr> \<and>
         map_of (pendingInteractions (cancelInteraction r (PostResolved code) c))
           (request_id r) = None \<and>
         displayed (cancelInteraction r (PostResolved code) c) = None"
  using assms
  by (auto simp: cancelInteraction_def cancelInteraction_begin_def cancelInteraction_resume_def
        fetch_def console_error_def displayed_def delete_conv
      split: post_reply.splits option.splits)

theorem cancel_delivered_witness:
  "interactionModal showing_a \<noteq> None \<and>
   displayed showing_a = Some request_a \<and>
   map_of (pendingInteractions showing_a) ''a'' = Some request_a \<and>
   network (cancelInteraction request_a (PostResolved 200) showing_a) =
     network showing_a @
       [Fetch ''POST'' ''/api/interaction/cancel'' [(''request_id'', JString ''a'')]] \<and>
   map_of (pendingInteractions (cancelInteraction request_a (PostResolved 200) showing_a))
     ''a'' = None \<and>
   displayed (cancelInteraction request_a (PostResolved 200) showing_a) = None"
proof -
  have h: "interactionModal showing_a \<noteq> None" by code_simp
  have d: "displayed showing_a = Some request_a" by code_simp
  have m: "map_of (pendingInteractions showing_a) ''a'' = Some request_a" by code_simp
  have i: "request_id request_a = ''a''" by (simp add: request_a_def)
  note t = cancel_delivered [OF h, of request_a "PostResolved 200" 200, unfolded i]
  from t h d m show ?thesis by blast
qed

text \<open>
  Claim C4, the cancel half. When the fetch of a cancellation rejects, the handler writes
  one entry to the console and nothing else: the entry stays in the bookkeeping and no
  second fetch is issued, but the status element is not touched, so no message reaches
  the user.
\<close>

theorem cancel_failure_silent:
  "cancelInteraction r (PostRejected m) c =
     c\<lparr>console := console c @ [Error ''Error cancelling interaction:'' (Some (FetchError m))],
       network := network c @ [Fetch ''POST'' ''/api/interaction/cancel''
                                 [(''request_id'', JString (request_id r))]]\<rparr> \<and>
   interaction_status (doc (cancelInteraction r (PostRejected m) c)) =
     interaction_status (doc c)"
  by (simp add: cancelInteraction_def cancelInteraction_begin_def cancelInteraction_resume_def
        fetch_def console_error_def)

section \<open>The standalone page\<close>

text \<open>
  Claim C9. On the standalone page a submit sends the body with the current request's id,
  the response \<^verbatim>\<open>"completed"\<close> and \<^verbatim>\<open>cancelled: false\<close>, whatever the type of the
  request and whatever the reply will be; the type is not consulted.
\<close>

theorem page_submit_completed:
  assumes "currentRequest p = Some r"
  shows "page_network (page_submitResponse reply p) =
           page_network p @
             [Fetch ''POST'' ''/api/interaction/response''
                [(''request_id'', JString (request_id r)),
                 (''response'', JString ''completed''),
                 (''cancelled'', JBool False)]]"
  using assms
  by (simp add: page_submitResponse_def page_fetch_def showStatus_def page_error_def Let_def
      split: post_reply.splits)

theorem page_submit_completed_witness:
  "currentRequest sample_page = Some request_a \<and>
   rtype request_a = ''text_input'' \<and>
   page_network (page_submitResponse (PostResolved 200) sample_page) =
     [Fetch ''POST'' ''/api/interaction/response''
        [(''request_id'', JString ''a''), (''response'', JString ''completed''),
         (''cancelled'', JBool False)]]"
proof -
  have h: "currentRequest sample_page = Some request_a" by (simp add: sample_page_def)
  have k: "rtype request_a = ''text_input''" by (simp add: request_a_def)
  have i: "request_id request_a = ''a''" by (simp add: request_a_def)
  have n: "page_network sample_page = []" by (simp add: sample_page_def)
  note t = page_submit_completed [OF h, of "PostResolved 200", unfolded i n]
  from t h k show ?thesis by simp
qed

section \<open>Kind dispatch\<close>




section \<open>Submitting\<close>




text \<open>
  Claim C5, as stated, fails. A submit that reaches the server after the request has been
  resolved elsewhere is answered with NotFound, here the status 404. The handler does not
  look at the reply: the state it leaves is the state a delivered submit leaves, and the
  status element reads that the agent was notified. No outcome saying that the request
  is no longer active is presented.
\<close>

theorem late_submit_reported_as_delivered:
  "snd (submitResponse request_a (PostResolved 404) showing_a) =
     snd (submitResponse request_a (PostResolved 200) showing_a) \<and>
   interaction_status (doc (snd (submitResponse request_a (PostResolved 404) showing_a))) =
     Some \<lparr>textContent = ''Agent notified! Continuing task...'',
           className = ''alert alert-success mt-3'', display = ''block''\<rparr>"
  by code_simp

text \<open>
  Claim C5, amended. On a page that has the status element, a submit whose fetch resolves
  with any status ends normally, and with the same result as one answered with 200: the
  entry is deleted, the modal hidden and the status element reads
  \<^verbatim>\<open>Agent notified! Continuing task...\<close>.
\<close>

theorem late_submit_completes:
  assumes "interaction_status (doc c) \<noteq> None" "interactionModal c \<noteq> None"
    "response_value r (doc c) = Inr v"
  shows "fst (submitResponse r (PostResolved code) c) = Done \<and>
         submitResponse r (PostResolved code) c = submitResponse r (PostResolved 200) c \<and>
         interaction_status (doc (snd (submitResponse r (PostResolved code) c))) =
           Some \<lparr>textContent = ''Agent notified! Continuing task...'',
                 className = ''alert alert-success mt-3'', display = ''block''\<rparr>"
proof -
  from assms(1) obtain s where s: "interaction_status (doc c) = Some s" by blast
  show ?thesis by (simp add: submitResponse_resolved [OF s assms(2,3)])
qed

theorem late_submit_completes_witness:
  "interaction_status (doc showing_a) \<noteq> None \<and> interactionModal showing_a \<noteq> None \<and>
   response_value request_a (doc showing_a) = Inr (JString []) \<and>
   fst (submitResponse request_a (PostResolved 404) showing_a) = Done \<and>
   submitResponse request_a (PostResolved 404) showing_a =
     submitResponse request_a (PostResolved 200) showing_a"
proof -
  have b: "interaction_status (doc showing_a) \<noteq> None" by code_simp
  have m: "interactionModal showing_a \<noteq> None" by code_simp
  have v: "response_value request_a (doc showing_a) = Inr (JString [])" by code_simp
  note t = late_submit_completes [OF b m v, of 404]
  from t b m v show ?thesis by blast
qed

section \<open>Single display\<close>

text \<open>
  Claim C1 against the handler. While request \<^verbatim>\<open>a\<close> is displayed and not yet answered,
  a poll whose reply lists \<^verbatim>\<open>a\<close> and a new request \<^verbatim>\<open>b\<close> shows \<^verbatim>\<open>b\<close> in the
  modal in place of \<^verbatim>\<open>a\<close>. Request \<^verbatim>\<open>a\<close> is still in the bookkeeping and no POST has
  been issued for it. The standalone page guards the same step with its
  \<^verbatim>\<open>currentRequest\<close> test (lemma \<open>page_poll_keeps_current\<close>).
\<close>

theorem poll_replaces_displayed_request:
  "displayed showing_a = Some request_a \<and>
   displayed (checkPendingInteractions
                (PendingData [(''a'', request_a), (''b'', request_b)]) showing_a) =
     Some request_b \<and>
   map_of (pendingInteractions
             (checkPendingInteractions
                (PendingData [(''a'', request_a), (''b'', request_b)]) showing_a)) ''a'' =
     Some request_a \<and>
   network (checkPendingInteractions
              (PendingData [(''a'', request_a), (''b'', request_b)]) showing_a) =
     [Fetch ''GET'' ''/api/interaction/pending'' [],
      Fetch ''GET'' ''/api/interaction/pending'' []]"
  by code_simp

section \<open>After a request is resolved\<close>




end
